theory Spec2Isabelle
  imports Complex_Main "HOL-Library.Word"
begin

section \<open>JavaScript numbers\<close>

text \<open>
  A JavaScript Number is NaN, an infinity or a finite value. Finite values are modelled
  by exact rationals. Every finite operation of the encoder is exact in double precision
  on the values it receives: an element of a \<open>Float32Array\<close> has a 24-bit significand,
  after the clamp it lies in \<open>[-1, 1]\<close>, and its product with \<open>0x8000\<close> or
  \<open>0x7FFF\<close> needs at most 39 bits; lengths and rates are integers below \<open>2 ^ 53\<close>.
  The sign of zero is not modelled: every integer conversion maps \<open>-0\<close> to \<open>0\<close>.
\<close>

datatype jsnum = NaN | PInf | NInf | Fin rat

datatype js_error = RangeError | TypeError | SyntaxError | Error string

type_synonym byte = "8 word"

text \<open>\<open>Math.min\<close> and \<open>Math.max\<close> of two arguments: NaN wins over everything.\<close>

fun Math_min :: "jsnum \<Rightarrow> jsnum \<Rightarrow> jsnum" where
  "Math_min NaN y = NaN"
| "Math_min x NaN = NaN"
| "Math_min NInf y = NInf"
| "Math_min x NInf = NInf"
| "Math_min PInf y = y"
| "Math_min x PInf = x"
| "Math_min (Fin a) (Fin b) = Fin (min a b)"

fun Math_max :: "jsnum \<Rightarrow> jsnum \<Rightarrow> jsnum" where
  "Math_max NaN y = NaN"
| "Math_max x NaN = NaN"
| "Math_max PInf y = PInf"
| "Math_max x PInf = PInf"
| "Math_max NInf y = y"
| "Math_max x NInf = x"
| "Math_max (Fin a) (Fin b) = Fin (max a b)"

text \<open>The comparison \<open>x < y\<close>: false as soon as one side is NaN.\<close>

fun js_lt :: "jsnum \<Rightarrow> jsnum \<Rightarrow> bool" where
  "js_lt NaN y = False"
| "js_lt x NaN = False"
| "js_lt x NInf = False"
| "js_lt NInf y = True"
| "js_lt PInf y = False"
| "js_lt x PInf = True"
| "js_lt (Fin a) (Fin b) = (a < b)"

fun sign_of :: "jsnum \<Rightarrow> rat" where
  "sign_of NaN = 0"
| "sign_of PInf = 1"
| "sign_of NInf = - 1"
| "sign_of (Fin q) = sgn q"

text \<open>The product \<open>x * y\<close>: an infinity times zero is NaN.\<close>

fun js_mul :: "jsnum \<Rightarrow> jsnum \<Rightarrow> jsnum" where
  "js_mul (Fin a) (Fin b) = Fin (a * b)"
| "js_mul x y =
     (if x = NaN \<or> y = NaN \<or> sign_of x * sign_of y = 0 then NaN
      else if 0 < sign_of x * sign_of y then PInf else NInf)"

text \<open>Rounding towards zero, the truncation of the integer conversions.\<close>

definition js_truncate :: "rat \<Rightarrow> int" where
  "js_truncate q = (if q < 0 then \<lceil>q\<rceil> else \<lfloor>q\<rfloor>)"

text \<open>
  \<open>ToUint8\<close>, \<open>ToUint16\<close>, \<open>ToUint32\<close>: a non-finite number is 0, a finite one is
  truncated and reduced modulo \<open>2 ^ w\<close>. \<open>ToInt16\<close> reads the result as two's complement.
\<close>

definition ToUint :: "nat \<Rightarrow> jsnum \<Rightarrow> int" where
  "ToUint w x = (case x of Fin q \<Rightarrow> js_truncate q mod 2 ^ w | _ \<Rightarrow> 0)"

definition ToInt16 :: "jsnum \<Rightarrow> int" where
  "ToInt16 x = (let int16bit = ToUint 16 x
                in if int16bit \<ge> 2 ^ 15 then int16bit - 2 ^ 16 else int16bit)"

section \<open>DataView over an ArrayBuffer\<close>

text \<open>
  The buffer is its list of bytes. A store of \<open>n\<close> bytes at \<open>off\<close> throws
  \<open>RangeError\<close> unless \<open>off + n\<close> is within the buffer, and then changes nothing.
\<close>

fun ebind :: "'e + 'a \<Rightarrow> ('a \<Rightarrow> 'e + 'b) \<Rightarrow> 'e + 'b" where
  "ebind (Inl e) f = Inl e"
| "ebind (Inr v) f = f v"

fun le_bytes :: "nat \<Rightarrow> int \<Rightarrow> byte list" where
  "le_bytes 0 v = []"
| "le_bytes (Suc n) v = word_of_int v # le_bytes n (v div 256)"

definition raw_bytes :: "nat \<Rightarrow> int \<Rightarrow> bool \<Rightarrow> byte list" where
  "raw_bytes n v littleEndian = (if littleEndian then le_bytes n v else rev (le_bytes n v))"

definition store :: "byte list \<Rightarrow> nat \<Rightarrow> byte list \<Rightarrow> js_error + byte list" where
  "store view off bs =
     (if off + length bs > length view then Inl RangeError
      else Inr (take off view @ bs @ drop (off + length bs) view))"

definition setUint8 :: "byte list \<Rightarrow> nat \<Rightarrow> jsnum \<Rightarrow> js_error + byte list" where
  "setUint8 view off v = store view off (raw_bytes 1 (ToUint 8 v) True)"

definition setUint16 :: "byte list \<Rightarrow> nat \<Rightarrow> jsnum \<Rightarrow> bool \<Rightarrow> js_error + byte list" where
  "setUint16 view off v littleEndian = store view off (raw_bytes 2 (ToUint 16 v) littleEndian)"

definition setUint32 :: "byte list \<Rightarrow> nat \<Rightarrow> jsnum \<Rightarrow> bool \<Rightarrow> js_error + byte list" where
  "setUint32 view off v littleEndian = store view off (raw_bytes 4 (ToUint 32 v) littleEndian)"

definition setInt16 :: "byte list \<Rightarrow> nat \<Rightarrow> jsnum \<Rightarrow> bool \<Rightarrow> js_error + byte list" where
  "setInt16 view off v littleEndian = store view off (raw_bytes 2 (ToInt16 v) littleEndian)"

text \<open>The readers of a DataView, by which the fields of a container are observed.\<close>

fun from_le :: "byte list \<Rightarrow> int" where
  "from_le [] = 0"
| "from_le (b # bs) = uint b + 256 * from_le bs"

definition view_slice :: "byte list \<Rightarrow> nat \<Rightarrow> nat \<Rightarrow> js_error + byte list" where
  "view_slice view off n =
     (if off + n > length view then Inl RangeError else Inr (take n (drop off view)))"

definition load :: "byte list \<Rightarrow> nat \<Rightarrow> nat \<Rightarrow> bool \<Rightarrow> js_error + int" where
  "load view off n littleEndian =
     ebind (view_slice view off n)
       (\<lambda>bs. Inr (from_le (if littleEndian then bs else rev bs)))"


definition getUint32 :: "byte list \<Rightarrow> nat \<Rightarrow> bool \<Rightarrow> js_error + int" where
  "getUint32 view off littleEndian = load view off 4 littleEndian"

definition getInt16 :: "byte list \<Rightarrow> nat \<Rightarrow> bool \<Rightarrow> js_error + int" where
  "getInt16 view off littleEndian =
     ebind (load view off 2 littleEndian)
       (\<lambda>u. Inr (if u \<ge> 2 ^ 15 then u - 2 ^ 16 else u))"

section \<open>The WAV helpers of script.js\<close>

text \<open>
  \<open>mergeBuffers\<close>: the total length by \<open>reduce\<close>, a zero-filled \<open>Float32Array\<close> of that
  length, then one \<open>result.set(chunk, offset)\<close> per chunk. \<open>set\<close> throws \<open>RangeError\<close>
  when the chunk does not fit at the offset.
\<close>

definition typed_set :: "jsnum list \<Rightarrow> jsnum list \<Rightarrow> nat \<Rightarrow> js_error + jsnum list" where
  "typed_set result chunk offset =
     (if offset + length chunk > length result then Inl RangeError
      else Inr (take offset result @ chunk @ drop (offset + length chunk) result))"

fun merge_loop :: "jsnum list \<Rightarrow> nat \<Rightarrow> jsnum list list \<Rightarrow> js_error + jsnum list" where
  "merge_loop result offset [] = Inr result"
| "merge_loop result offset (chunk # chunks) =
     ebind (typed_set result chunk offset)
       (\<lambda>result. merge_loop result (offset + length chunk) chunks)"

definition mergeBuffers :: "jsnum list list \<Rightarrow> js_error + jsnum list" where
  "mergeBuffers chunks =
     (let totalLength = foldl (\<lambda>acc chunk. acc + length chunk) 0 chunks;
          result = replicate totalLength (Fin 0)
      in merge_loop result 0 chunks)"

text \<open>\<open>writeString\<close>: one \<open>setUint8\<close> per character code, at \<open>offset + i\<close>.\<close>

fun writeString_from :: "nat \<Rightarrow> byte list \<Rightarrow> nat \<Rightarrow> string \<Rightarrow> js_error + byte list" where
  "writeString_from i view offset [] = Inr view"
| "writeString_from i view offset (c # cs) =
     ebind (setUint8 view (offset + i) (Fin (of_nat (of_char c))))
       (\<lambda>view. writeString_from (i + 1) view offset cs)"

definition writeString :: "byte list \<Rightarrow> nat \<Rightarrow> string \<Rightarrow> js_error + byte list" where
  "writeString view offset string = writeString_from 0 view offset string"

text \<open>The sample loop of \<open>createWavBlob\<close>: clamp, scale by sign, \<open>setInt16\<close>.\<close>

fun write_samples :: "byte list \<Rightarrow> nat \<Rightarrow> jsnum list \<Rightarrow> js_error + byte list" where
  "write_samples view offset [] = Inr view"
| "write_samples view offset (x # xs) =
     (let sample = Math_max (Fin (- 1)) (Math_min (Fin 1) x)
      in ebind (setInt16 view offset
                  (if js_lt sample (Fin 0) then js_mul sample (Fin 32768)
                   else js_mul sample (Fin 32767)) True)
           (\<lambda>view. write_samples view (offset + 2) xs))"

text \<open>
  \<open>createWavBlob\<close> as script.js writes it. The result is the content of the Blob, the
  bytes of the buffer; the allocation \<open>new ArrayBuffer(n)\<close> is zero-filled. An
  allocation that the engine refuses for lack of memory is outside the model.
\<close>

definition createWavBlob :: "jsnum list \<Rightarrow> jsnum \<Rightarrow> js_error + byte list" where
  "createWavBlob audioBuffer sampleRate =
     (let numberOfChannels = 1;
          bitDepth = 16;
          bytesPerSample = bitDepth div 8;
          blockAlign = numberOfChannels * bytesPerSample;
          dataLength = length audioBuffer * blockAlign;
          view = replicate (44 + dataLength) 0
      in ebind (writeString view 0 ''RIFF'') (\<lambda>view.
         ebind (setUint32 view 4 (Fin (of_nat (36 + dataLength))) True) (\<lambda>view.
         ebind (writeString view 8 ''WAVE'') (\<lambda>view.
         ebind (writeString view 12 ''fmt '') (\<lambda>view.
         ebind (setUint32 view 16 (Fin 16) True) (\<lambda>view.
         ebind (setUint16 view 20 (Fin 1) True) (\<lambda>view.
         ebind (setUint16 view 22 (Fin (of_nat numberOfChannels)) True) (\<lambda>view.
         ebind (setUint32 view 24 sampleRate True) (\<lambda>view.
         ebind (setUint32 view 28 (js_mul sampleRate (Fin (of_nat blockAlign))) True) (\<lambda>view.
         ebind (setUint16 view 32 (Fin (of_nat blockAlign)) True) (\<lambda>view.
         ebind (setUint16 view 34 (Fin (of_nat bitDepth)) True) (\<lambda>view.
         ebind (writeString view 36 ''data'') (\<lambda>view.
         ebind (setUint32 view 40 (Fin (of_nat dataLength)) True) (\<lambda>view.
         write_samples view 44 audioBuffer))))))))))))))"

text \<open>The same function as the second source file writes it, the constants folded.\<close>

definition createWavBlob_folded :: "jsnum list \<Rightarrow> jsnum \<Rightarrow> js_error + byte list" where
  "createWavBlob_folded buf sr =
     (let view = replicate (44 + length buf * 2) 0
      in ebind (writeString view 0 ''RIFF'') (\<lambda>view.
         ebind (setUint32 view 4 (Fin (of_nat (36 + length buf * 2))) True) (\<lambda>view.
         ebind (writeString view 8 ''WAVE'') (\<lambda>view.
         ebind (writeString view 12 ''fmt '') (\<lambda>view.
         ebind (setUint32 view 16 (Fin 16) True) (\<lambda>view.
         ebind (setUint16 view 20 (Fin 1) True) (\<lambda>view.
         ebind (setUint16 view 22 (Fin 1) True) (\<lambda>view.
         ebind (setUint32 view 24 sr True) (\<lambda>view.
         ebind (setUint32 view 28 (js_mul sr (Fin 2)) True) (\<lambda>view.
         ebind (setUint16 view 32 (Fin 2) True) (\<lambda>view.
         ebind (setUint16 view 34 (Fin 16) True) (\<lambda>view.
         ebind (writeString view 36 ''data'') (\<lambda>view.
         ebind (setUint32 view 40 (Fin (of_nat (length buf * 2))) True) (\<lambda>view.
         write_samples view 44 buf))))))))))))))"

text \<open>Observing a result of the encoder: a header field, or the \<open>i\<close>-th PCM sample.\<close>

definition wav_u32 :: "js_error + byte list \<Rightarrow> nat \<Rightarrow> js_error + int" where
  "wav_u32 r off = ebind r (\<lambda>bytes. getUint32 bytes off True)"


definition wav_sample :: "js_error + byte list \<Rightarrow> nat \<Rightarrow> js_error + int" where
  "wav_sample r i = ebind r (\<lambda>bytes. getInt16 bytes (44 + 2 * i) True)"


definition wav_length :: "js_error + byte list \<Rightarrow> js_error + nat" where
  "wav_length r = ebind r (\<lambda>bytes. Inr (length bytes))"

section \<open>The page state and the click handlers\<close>

text \<open>
  The globals of the script and the parts of the document the handlers read or write.
  \<open>recorder\<close> and \<open>mediaStreamSource\<close> are \<open>undefined\<close> until a recording starts;
  \<open>window.currentRecording\<close> is absent or holds the stream (its tracks), the chunks and
  the sample rate. An object URL is identified with the bytes it refers to. The texts of
  alerts and status lines are given without their leading pictograph.
\<close>

datatype audio_node = AudioNode nat

record recording =
  stream :: "nat list"
  audioChunks :: "jsnum list list"
  sampleRate :: jsnum

record js_file =
  file_name :: string
  file_type :: string
  file_bytes :: "byte list"

datatype part = FilePart js_file | TextPart string

type_synonym form = "(string \<times> part) list"

text \<open>
  What \<open>response.json()\<close> gives: a rejection with \<open>SyntaxError\<close> when the body is not
  JSON; \<open>null\<close>; or a value, of which the handlers use \<open>detail\<close> (here already as the
  message \<open>new Error\<close> makes of it, \<open>None\<close> when absent or falsy) and the fields they
  render (\<open>renderable\<close>: present, with the methods called on them).
\<close>

datatype json_outcome = JsonSyntaxError | JsonNull | JsonValue "string option" bool

record response =
  resp_ok :: bool
  resp_text :: string
  resp_blob :: "byte list"
  resp_json :: json_outcome

datatype fetch_outcome = NetworkFailure | Response response

datatype effect =
    Alert string
  | AlertError string js_error
  | Fetch string form
  | RecorderDisconnect
  | SourceDisconnect
  | TrackStop nat
  | CreateObjectURL "byte list"
  | Download string "byte list"
  | ScrollIntoView

datatype result_panel = NoResult | JsonResult | BinaryResult "byte list"

record page =
  recorder :: "audio_node option"
  mediaStreamSource :: "audio_node option"
  currentRecording :: "recording option"
  recordedBlob :: "byte list option"
  recordedAudio_src :: "byte list option"
  recordedAudio_hidden :: bool
  recordingStatus_text :: string
  recordingStatus_background :: string
  startRecordBtn_disabled :: bool
  stopRecordBtn_disabled :: bool
  uploadAudioDiv_hidden :: bool
  audioFileInput_files :: "js_file list"
  audioFileName_show :: bool
  imageFileInput_files :: "js_file list"
  extractImageFileInput_files :: "js_file list"
  nFftSlider_value :: string
  hopLengthSlider_value :: string
  loading_hidden :: bool
  embedResult_content :: result_panel
  embedResult_hidden :: bool
  extractResult_content :: result_panel
  extractResult_hidden :: bool

text \<open>
  A handler run gives the effects it performed, in order, the page it leaves, and the
  exception that escaped it, if one did.
\<close>

type_synonym run = "effect list \<times> page \<times> js_error option"

definition effects_of :: "run \<Rightarrow> effect list" where
  "effects_of r = fst r"

definition page_of :: "run \<Rightarrow> page" where
  "page_of r = fst (snd r)"

definition thrown_of :: "run \<Rightarrow> js_error option" where
  "thrown_of r = snd (snd r)"

fun fetches :: "effect list \<Rightarrow> (string \<times> form) list" where
  "fetches [] = []"
| "fetches (Fetch url body # es) = (url, body) # fetches es"
| "fetches (e # es) = fetches es"

text \<open>The stop handler of script.js.\<close>

definition stopRecordBtn_click :: "page \<Rightarrow> run" where
  "stopRecordBtn_click s =
     (case currentRecording s of
        None \<Rightarrow> ([], s, None)
      | Some cr \<Rightarrow>
          (case (recorder s, mediaStreamSource s) of
             (Some r, None) \<Rightarrow> ([RecorderDisconnect], s, Some TypeError)
           | (node, src) \<Rightarrow>
               (let disconnects =
                      (if node = None then [] else [RecorderDisconnect, SourceDisconnect]);
                    stops = map TrackStop (stream cr)
                in case ebind (mergeBuffers (audioChunks cr))
                          (\<lambda>audioBuffer. createWavBlob audioBuffer (sampleRate cr)) of
                     Inl e \<Rightarrow> (disconnects @ stops, s, Some e)
                   | Inr wavBlob \<Rightarrow>
                       (disconnects @ stops @ [CreateObjectURL wavBlob],
                        s\<lparr>recordedBlob := Some wavBlob,
                          recordedAudio_src := Some wavBlob,
                          recordedAudio_hidden := False,
                          recordingStatus_text := ''Recording saved!'',
                          recordingStatus_background := ''#95E1D3'',
                          startRecordBtn_disabled := False,
                          stopRecordBtn_disabled := True,
                          audioFileInput_files := [],
                          audioFileName_show := False,
                          currentRecording := None\<rparr>,
                        None))))"

text \<open>The stop handler of the second source file: no test of \<open>recorder\<close>.\<close>

definition stopRecordBtn_click_part0 :: "page \<Rightarrow> run" where
  "stopRecordBtn_click_part0 s =
     (case currentRecording s of
        None \<Rightarrow> ([], s, None)
      | Some cr \<Rightarrow>
          (case (recorder s, mediaStreamSource s) of
             (None, src) \<Rightarrow> ([], s, Some TypeError)
           | (Some r, None) \<Rightarrow> ([RecorderDisconnect], s, Some TypeError)
           | (Some r, Some src) \<Rightarrow>
               (let disconnects = [RecorderDisconnect, SourceDisconnect];
                    stops = map TrackStop (stream cr)
                in case ebind (mergeBuffers (audioChunks cr))
                          (\<lambda>merged. createWavBlob_folded merged (sampleRate cr)) of
                     Inl e \<Rightarrow> (disconnects @ stops, s, Some e)
                   | Inr wavBlob \<Rightarrow>
                       (disconnects @ stops @ [CreateObjectURL wavBlob],
                        s\<lparr>recordedBlob := Some wavBlob,
                          recordedAudio_src := Some wavBlob,
                          recordedAudio_hidden := False,
                          recordingStatus_text := ''Saved!'',
                          stopRecordBtn_disabled := True,
                          startRecordBtn_disabled := False,
                          audioFileInput_files := [],
                          audioFileName_show := False,
                          currentRecording := None\<rparr>,
                        None))))"

text \<open>
  The embed and extract handlers. \<open>net\<close> is the remote service: what \<open>fetch\<close> resolves
  to for a request. \<open>finally\<close> hides the loading indicator on every path; \<open>catch\<close> turns
  every exception into an alert of its message, so none escapes. A run is taken as a
  whole: what other handlers do while \<open>fetch\<close> is pending is not modelled.
\<close>

definition finally_hide :: "effect list \<times> page \<Rightarrow> run" where
  "finally_hide r = (fst r, (snd r)\<lparr>loading_hidden := True\<rparr>, None)"

definition embedBtn_click :: "(string \<Rightarrow> form \<Rightarrow> fetch_outcome) \<Rightarrow> page \<Rightarrow> run" where
  "embedBtn_click net s =
     (if uploadAudioDiv_hidden s \<and> recordedBlob s = None
      then finally_hide ([Alert ''Please record audio first!''], s)
      else if \<not> uploadAudioDiv_hidden s \<and> audioFileInput_files s = []
      then finally_hide ([Alert ''Please select an audio file!''], s)
      else if imageFileInput_files s = []
      then finally_hide ([Alert ''Please select an image file!''], s)
      else
        (let audioFile =
               (case (uploadAudioDiv_hidden s, recordedBlob s) of
                  (True, Some b) \<Rightarrow>
                    \<lparr>file_name = ''recorded.wav'', file_type = ''audio/wav'', file_bytes = b\<rparr>
                | _ \<Rightarrow> hd (audioFileInput_files s));
             s1 = s\<lparr>loading_hidden := False\<rparr>;
             formData = [(''audio_file'', FilePart audioFile),
                         (''image_file'', FilePart (hd (imageFileInput_files s))),
                         (''n_fft'', TextPart (nFftSlider_value s)),
                         (''hop_length'', TextPart (hopLengthSlider_value s))];
             sent = [Fetch ''/api/embed'' formData]
         in case net ''/api/embed'' formData of
              NetworkFailure \<Rightarrow> finally_hide (sent @ [AlertError ''Error: '' TypeError], s1)
            | Response response \<Rightarrow>
                (case resp_json response of
                   JsonSyntaxError \<Rightarrow>
                     finally_hide (sent @ [AlertError ''Error: '' SyntaxError], s1)
                 | JsonNull \<Rightarrow>
                     finally_hide (sent @ [AlertError ''Error: '' TypeError], s1)
                 | JsonValue detail renderable \<Rightarrow>
                     if \<not> resp_ok response
                     then finally_hide (sent @ [AlertError ''Error: ''
                            (Error (case detail of Some d \<Rightarrow> d
                                    | None \<Rightarrow> ''Embedding failed''))], s1)
                     else if \<not> renderable
                     then finally_hide (sent @ [AlertError ''Error: '' TypeError], s1)
                     else finally_hide (sent @ [ScrollIntoView],
                            s1\<lparr>embedResult_content := JsonResult,
                               embedResult_hidden := False\<rparr>))))"

definition extractBtn_click :: "(string \<Rightarrow> form \<Rightarrow> fetch_outcome) \<Rightarrow> page \<Rightarrow> run" where
  "extractBtn_click net s =
     (if extractImageFileInput_files s = []
      then finally_hide ([Alert ''Please select a PNG image with hidden audio!''], s)
      else
        (let s1 = s\<lparr>loading_hidden := False\<rparr>;
             formData = [(''image_file'', FilePart (hd (extractImageFileInput_files s)))];
             sent = [Fetch ''/api/extract'' formData]
         in case net ''/api/extract'' formData of
              NetworkFailure \<Rightarrow> finally_hide (sent @ [AlertError ''Error: '' TypeError], s1)
            | Response response \<Rightarrow>
                (case resp_json response of
                   JsonSyntaxError \<Rightarrow>
                     finally_hide (sent @ [AlertError ''Error: '' SyntaxError], s1)
                 | JsonNull \<Rightarrow>
                     finally_hide (sent @ [AlertError ''Error: '' TypeError], s1)
                 | JsonValue detail renderable \<Rightarrow>
                     if \<not> resp_ok response
                     then finally_hide (sent @ [AlertError ''Error: ''
                            (Error (case detail of Some d \<Rightarrow> d
                                    | None \<Rightarrow> ''Extraction failed''))], s1)
                     else if \<not> renderable
                     then finally_hide (sent @ [AlertError ''Error: '' TypeError], s1)
                     else finally_hide (sent @ [ScrollIntoView],
                            s1\<lparr>extractResult_content := JsonResult,
                               extractResult_hidden := False\<rparr>))))"

text \<open>
  The handlers of the second source file: on a status that is not ok they throw
  \<open>new Error(await response.text())\<close>; otherwise they take the body as a blob, make an
  object URL, click a download link and show the result.
\<close>

definition embedBtn_click_part0 ::
  "(string \<Rightarrow> form \<Rightarrow> fetch_outcome) \<Rightarrow> page \<Rightarrow> run" where
  "embedBtn_click_part0 net s =
     (if uploadAudioDiv_hidden s \<and> recordedBlob s = None
      then finally_hide ([Alert ''Record audio first!''], s)
      else if \<not> uploadAudioDiv_hidden s \<and> audioFileInput_files s = []
      then finally_hide ([Alert ''Choose audio!''], s)
      else if imageFileInput_files s = []
      then finally_hide ([Alert ''Choose image!''], s)
      else
        (let audioFile =
               (case (uploadAudioDiv_hidden s, recordedBlob s) of
                  (True, Some b) \<Rightarrow>
                    \<lparr>file_name = ''recorded.wav'', file_type = ''audio/wav'', file_bytes = b\<rparr>
                | _ \<Rightarrow> hd (audioFileInput_files s));
             form = [(''audio_file'', FilePart audioFile),
                     (''image_file'', FilePart (hd (imageFileInput_files s))),
                     (''n_fft'', TextPart (nFftSlider_value s)),
                     (''hop_length'', TextPart (hopLengthSlider_value s))];
             s1 = s\<lparr>loading_hidden := False\<rparr>;
             sent = [Fetch ''/api/embed'' form]
         in case net ''/api/embed'' form of
              NetworkFailure \<Rightarrow> finally_hide (sent @ [AlertError ''Error: '' TypeError], s1)
            | Response response \<Rightarrow>
                if \<not> resp_ok response
                then finally_hide
                       (sent @ [AlertError ''Error: '' (Error (resp_text response))], s1)
                else finally_hide
                       (sent @ [CreateObjectURL (resp_blob response),
                                Download ''embedded.png'' (resp_blob response)],
                        s1\<lparr>embedResult_content := BinaryResult (resp_blob response),
                           embedResult_hidden := False\<rparr>)))"

definition extractBtn_click_part0 ::
  "(string \<Rightarrow> form \<Rightarrow> fetch_outcome) \<Rightarrow> page \<Rightarrow> run" where
  "extractBtn_click_part0 net s =
     (if extractImageFileInput_files s = []
      then finally_hide ([Alert ''Choose PNG!''], s)
      else
        (let form = [(''image_file'', FilePart (hd (extractImageFileInput_files s)))];
             s1 = s\<lparr>loading_hidden := False\<rparr>;
             sent = [Fetch ''/api/extract'' form]
         in case net ''/api/extract'' form of
              NetworkFailure \<Rightarrow> finally_hide (sent @ [AlertError ''Error: '' TypeError], s1)
            | Response response \<Rightarrow>
                if \<not> resp_ok response
                then finally_hide
                       (sent @ [AlertError ''Error: '' (Error (resp_text response))], s1)
                else finally_hide
                       (sent @ [CreateObjectURL (resp_blob response),
                                Download ''extracted.wav'' (resp_blob response)],
                        s1\<lparr>extractResult_content := BinaryResult (resp_blob response),
                           extractResult_hidden := False\<rparr>)))"

section \<open>Notions used to state and prove the properties\<close>

text \<open>The bytes of an ASCII literal.\<close>

definition ascii :: "string \<Rightarrow> byte list" where
  "ascii s = map (\<lambda>c. of_char c) s"

text \<open>The number the sample loop hands to \<open>setInt16\<close> for a sample \<open>x\<close>.\<close>

definition scaled :: "jsnum \<Rightarrow> jsnum" where
  "scaled x =
     (let sample = Math_max (Fin (- 1)) (Math_min (Fin 1) x)
      in if js_lt sample (Fin 0) then js_mul sample (Fin 32768)
         else js_mul sample (Fin 32767))"

definition sample_bytes :: "jsnum list \<Rightarrow> byte list" where
  "sample_bytes xs = concat (map (\<lambda>x. le_bytes 2 (ToInt16 (scaled x))) xs)"

text \<open>The 44 bytes the header writes leave, for \<open>L\<close> samples at rate \<open>sr\<close>.\<close>

definition wav_header :: "nat \<Rightarrow> jsnum \<Rightarrow> byte list" where
  "wav_header L sr =
     ascii ''RIFF'' @ le_bytes 4 (ToUint 32 (Fin (of_nat (36 + 2 * L)))) @
     ascii ''WAVE'' @ ascii ''fmt '' @ le_bytes 4 16 @ le_bytes 2 1 @ le_bytes 2 1 @
     le_bytes 4 (ToUint 32 sr) @ le_bytes 4 (ToUint 32 (js_mul sr (Fin 2))) @
     le_bytes 2 2 @ le_bytes 2 16 @
     ascii ''data'' @ le_bytes 4 (ToUint 32 (Fin (of_nat (2 * L))))"

text \<open>A buffer written up to \<open>pre\<close>, with \<open>k\<close> zero bytes still to come.\<close>

definition filled :: "byte list \<Rightarrow> nat \<Rightarrow> byte list" where
  "filled pre k = pre @ replicate k 0"

text \<open>
  The quantisation as the specification words it: clamp to \<open>[-1, 1]\<close>, then round to
  nearest the product with 32768 (negative) or 32767.
\<close>

definition spec_quantize :: "rat \<Rightarrow> int" where
  "spec_quantize s =
     (let c = max (- 1) (min 1 s)
      in if c < 0 then round (c * 32768) else round (c * 32767))"

text \<open>The same with the rounding towards zero that \<open>setInt16\<close> applies.\<close>

definition truncating_quantize :: "rat \<Rightarrow> int" where
  "truncating_quantize s =
     (let c = max (- 1) (min 1 s)
      in if c < 0 then js_truncate (c * 32768) else js_truncate (c * 32767))"

text \<open>
  Pages and services at which the handlers are evaluated: the page as loaded, a page
  with a recording in progress, and a page with every input selected; a service that is
  unreachable, one that answers a failure in plain text, and one that answers it in JSON.
\<close>

definition blank_page :: page where
  "blank_page =
     \<lparr>recorder = None, mediaStreamSource = None, currentRecording = None,
      recordedBlob = None, recordedAudio_src = None, recordedAudio_hidden = True,
      recordingStatus_text = [], recordingStatus_background = [],
      startRecordBtn_disabled = False, stopRecordBtn_disabled = True,
      uploadAudioDiv_hidden = False, audioFileInput_files = [], audioFileName_show = False,
      imageFileInput_files = [], extractImageFileInput_files = [],
      nFftSlider_value = ''2048'', hopLengthSlider_value = ''512'',
      loading_hidden = True,
      embedResult_content = NoResult, embedResult_hidden = True,
      extractResult_content = NoResult, extractResult_hidden = True\<rparr>"

definition recording_page :: page where
  "recording_page =
     blank_page\<lparr>recorder := Some (AudioNode 1), mediaStreamSource := Some (AudioNode 0),
       currentRecording :=
         Some \<lparr>stream = [0], audioChunks = [[Fin (1 / 2)], [Fin (- 1), Fin 0]],
               sampleRate = Fin 44100\<rparr>,
       startRecordBtn_disabled := True, stopRecordBtn_disabled := False\<rparr>"

definition ready_page :: page where
  "ready_page =
     blank_page\<lparr>audioFileInput_files :=
         [\<lparr>file_name = ''a.wav'', file_type = ''audio/wav'', file_bytes = [1, 2]\<rparr>],
       imageFileInput_files :=
         [\<lparr>file_name = ''i.png'', file_type = ''image/png'', file_bytes = [3]\<rparr>],
       extractImageFileInput_files :=
         [\<lparr>file_name = ''e.png'', file_type = ''image/png'', file_bytes = [4]\<rparr>]\<rparr>"

definition offline :: "string \<Rightarrow> form \<Rightarrow> fetch_outcome" where
  "offline url body = NetworkFailure"

definition plain_text_failure :: "string \<Rightarrow> form \<Rightarrow> fetch_outcome" where
  "plain_text_failure url body =
     Response \<lparr>resp_ok = False, resp_text = ''Internal Server Error'',
               resp_blob = ascii ''Internal Server Error'', resp_json = JsonSyntaxError\<rparr>"

definition json_detail_failure :: "string \<Rightarrow> form \<Rightarrow> fetch_outcome" where
  "json_detail_failure url body =
     Response \<lparr>resp_ok = False, resp_text = ''{\"detail\":\"bad\"}'',
               resp_blob = ascii ''{\"detail\":\"bad\"}'',
               resp_json = JsonValue (Some ''bad'') False\<rparr>"

text \<open>
  The embed handler lacks an input: the audio of the active tab (the recording when the
  upload panel is hidden, else the chosen file) or the image.
\<close>

definition embed_input_missing :: "page \<Rightarrow> bool" where
  "embed_input_missing s =
     ((if uploadAudioDiv_hidden s then recordedBlob s = None else audioFileInput_files s = [])
      \<or> imageFileInput_files s = [])"

text \<open>
  A rejected submission: the run is one alert and nothing else, it throws nothing, and
  the page is the one before with the loading indicator hidden.
\<close>

definition rejected :: "run \<Rightarrow> page \<Rightarrow> bool" where
  "rejected r s =
     (case effects_of r of
        [Alert m] \<Rightarrow> page_of r = s\<lparr>loading_hidden := True\<rparr> \<and> thrown_of r = None
      | _ \<Rightarrow> False)"

section \<open>Bytes written and read back\<close>

lemma length_le_bytes [simp]: "length (le_bytes n v) = n"
  by (induction n arbitrary: v) auto

lemma length_ascii [simp]: "length (ascii s) = length s"
  by (simp add: ascii_def)

lemma length_sample_bytes [simp]: "length (sample_bytes xs) = 2 * length xs"
  by (induction xs) (simp_all add: sample_bytes_def)

lemma from_le_le_bytes: "from_le (le_bytes n v) = v mod 256 ^ n"
proof (induction n arbitrary: v)
  case 0
  show ?case by simp
next
  case (Suc n)
  have "from_le (le_bytes (Suc n) v) = v mod 256 + 256 * ((v div 256) mod 256 ^ n)"
    by (simp add: Suc uint_word_of_int)
  also have "\<dots> = v mod (256 * 256 ^ n)"
    using zmod_zmult2_eq [of "256 ^ n" v 256] by simp
  finally show ?case by simp
qed

lemma truncate_of_nat [simp]: "js_truncate (of_nat n) = int n"
  by (simp add: js_truncate_def)

lemma truncate_of_int [simp]: "js_truncate (of_int n) = n"
  by (simp add: js_truncate_def)

lemma truncate_numeral [simp]: "js_truncate (numeral n) = numeral n"
  by (simp add: js_truncate_def)

lemma filled_start: "replicate n 0 = filled [] n"
  by (simp add: filled_def)

lemma filled_done [simp]: "filled pre 0 = pre"
  by (simp add: filled_def)

lemma store_filled:
  "length pre = off \<Longrightarrow> length bs \<le> k \<Longrightarrow>
   store (filled pre k) off bs = Inr (filled (pre @ bs) (k - length bs))"
  by (simp add: store_def filled_def)

lemma char_byte: "raw_bytes 1 (ToUint 8 (Fin (of_nat (of_char c)))) True = [of_char c :: byte]"
proof -
  have "(word_of_int (int (of_char c) mod 256) :: byte) = of_char c"
    by (simp add: of_int_of_char of_nat_of_char)
  then show ?thesis
    by (simp add: raw_bytes_def ToUint_def)
qed

lemma setUint8_char_filled:
  "length pre = off \<Longrightarrow> 1 \<le> k \<Longrightarrow>
   setUint8 (filled pre k) off (Fin (of_nat (of_char c)))
   = Inr (filled (pre @ [of_char c]) (k - 1))"
  unfolding setUint8_def char_byte
  using store_filled [of pre off "[of_char c]" k] by simp

lemma writeString_from_filled:
  "length pre = offset + i \<Longrightarrow> length s \<le> k \<Longrightarrow>
   writeString_from i (filled pre k) offset s = Inr (filled (pre @ ascii s) (k - length s))"
proof (induction s arbitrary: i pre k)
  case Nil
  then show ?case by (simp add: ascii_def)
next
  case (Cons c cs)
  have step: "setUint8 (filled pre k) (offset + i) (Fin (of_nat (of_char c)))
        = Inr (filled (pre @ [of_char c]) (k - 1))"
    using Cons.prems by (intro setUint8_char_filled) auto
  have rest: "writeString_from (i + 1) (filled (pre @ [of_char c]) (k - 1)) offset cs
        = Inr (filled ((pre @ [of_char c]) @ ascii cs) (k - 1 - length cs))"
    using Cons.prems by (intro Cons.IH) auto
  have "writeString_from i (filled pre k) offset (c # cs)
        = Inr (filled ((pre @ [of_char c]) @ ascii cs) (k - 1 - length cs))"
    by (simp only: writeString_from.simps step ebind.simps rest)
  then show ?case by (simp add: ascii_def)
qed

lemma writeString_filled:
  "length pre = offset \<Longrightarrow> length s \<le> k \<Longrightarrow>
   writeString (filled pre k) offset s = Inr (filled (pre @ ascii s) (k - length s))"
  by (simp add: writeString_def writeString_from_filled)

lemma setUint32_filled:
  "length pre = off \<Longrightarrow> 4 \<le> k \<Longrightarrow>
   setUint32 (filled pre k) off v True = Inr (filled (pre @ le_bytes 4 (ToUint 32 v)) (k - 4))"
  by (simp add: setUint32_def raw_bytes_def store_filled)

lemma setUint16_filled:
  "length pre = off \<Longrightarrow> 2 \<le> k \<Longrightarrow>
   setUint16 (filled pre k) off v True = Inr (filled (pre @ le_bytes 2 (ToUint 16 v)) (k - 2))"
  by (simp add: setUint16_def raw_bytes_def store_filled)

lemma setInt16_filled:
  "length pre = off \<Longrightarrow> 2 \<le> k \<Longrightarrow>
   setInt16 (filled pre k) off v True = Inr (filled (pre @ le_bytes 2 (ToInt16 v)) (k - 2))"
  by (simp add: setInt16_def raw_bytes_def store_filled)

lemma scaled_fold:
  "(if js_lt (Math_max (Fin (- 1)) (Math_min (Fin 1) x)) (Fin 0)
    then js_mul (Math_max (Fin (- 1)) (Math_min (Fin 1) x)) (Fin 32768)
    else js_mul (Math_max (Fin (- 1)) (Math_min (Fin 1) x)) (Fin 32767)) = scaled x"
  by (simp add: scaled_def Let_def)

lemma write_samples_filled:
  "length pre = off \<Longrightarrow> 2 * length xs \<le> k \<Longrightarrow>
   write_samples (filled pre k) off xs
   = Inr (filled (pre @ sample_bytes xs) (k - 2 * length xs))"
proof (induction xs arbitrary: pre off k)
  case Nil
  then show ?case by (simp add: sample_bytes_def)
next
  case (Cons x xs)
  have step: "setInt16 (filled pre k) off (scaled x) True
        = Inr (filled (pre @ le_bytes 2 (ToInt16 (scaled x))) (k - 2))"
    using Cons.prems by (simp add: setInt16_filled)
  have rest: "write_samples (filled (pre @ le_bytes 2 (ToInt16 (scaled x))) (k - 2)) (off + 2) xs
        = Inr (filled ((pre @ le_bytes 2 (ToInt16 (scaled x))) @ sample_bytes xs)
                 (k - 2 - 2 * length xs))"
    using Cons.prems by (intro Cons.IH) auto
  have "write_samples (filled pre k) off (x # xs)
        = Inr (filled ((pre @ le_bytes 2 (ToInt16 (scaled x))) @ sample_bytes xs)
                 (k - 2 - 2 * length xs))"
    by (simp only: write_samples.simps Let_def scaled_fold step ebind.simps rest)
  then show ?case
    by (simp add: sample_bytes_def)
qed

lemma ToUint_numeral [simp]: "ToUint w (Fin (numeral n)) = numeral n mod 2 ^ w"
  by (simp add: ToUint_def)

lemma ToUint_one [simp]: "ToUint w (Fin 1) = 1 mod 2 ^ w"
  by (simp add: ToUint_def js_truncate_def)

lemma createWavBlob_bytes:
  "createWavBlob buf sr = Inr (wav_header (length buf) sr @ sample_bytes buf)"
  by (simp add: createWavBlob_def filled_start writeString_filled setUint32_filled
      setUint16_filled write_samples_filled wav_header_def mult.commute)

lemma createWavBlob_folded_eq: "createWavBlob_folded buf sr = createWavBlob buf sr"
  by (simp add: createWavBlob_def createWavBlob_folded_def)


lemma slice_skip:
  "length seg \<le> off \<Longrightarrow> view_slice (seg @ rest) off n = view_slice rest (off - length seg) n"
  by (auto simp add: view_slice_def)

lemma slice_here: "length bs = n \<Longrightarrow> view_slice (bs @ rest) 0 n = Inr bs"
  by (simp add: view_slice_def)

lemma slice_here_last: "length bs = n \<Longrightarrow> view_slice bs 0 n = Inr bs"
  by (simp add: view_slice_def)

lemma length_wav_header [simp]: "length (wav_header L sr) = 44"
  by (simp add: wav_header_def)

lemma ToUint_range: "0 \<le> ToUint w x \<and> ToUint w x < 2 ^ w"
  by (cases x) (simp_all add: ToUint_def)

lemma ToUint_mod [simp]: "ToUint w x mod 2 ^ w = ToUint w x"
  using ToUint_range [of w x] by simp

lemma load_le: "load view off n True = ebind (view_slice view off n) (\<lambda>bs. Inr (from_le bs))"
  by (simp add: load_def)

lemma header_u32_4:
  "getUint32 (wav_header L sr @ ss) 4 True = Inr (ToUint 32 (Fin (of_nat (36 + 2 * L))))"
  using ToUint_mod [of 32]
  by (simp add: getUint32_def load_le wav_header_def slice_skip slice_here from_le_le_bytes)



lemma header_u32_40:
  "getUint32 (wav_header L sr @ ss) 40 True = Inr (ToUint 32 (Fin (of_nat (2 * L))))"
  using ToUint_mod [of 32]
  by (simp add: getUint32_def load_le wav_header_def slice_skip slice_here from_le_le_bytes)

lemma header_u32_16:
  "getUint32 (wav_header L sr @ ss) 16 True = Inr 16"
  by (simp add: getUint32_def load_le wav_header_def slice_skip slice_here from_le_le_bytes)




lemma ToInt16_range: "- 32768 \<le> ToInt16 x \<and> ToInt16 x \<le> 32767"
  using ToUint_range [of 16 x] by (simp add: ToInt16_def Let_def)

lemma int16_roundtrip:
  fixes v :: int
  assumes "- 32768 \<le> v" and "v \<le> 32767"
  shows "(if v mod 65536 \<ge> 32768 then v mod 65536 - 65536 else v mod 65536) = v"
proof (cases "v < 0")
  case True
  have "v mod 65536 = (v + 65536) mod 65536"
    by simp
  also have "\<dots> = v + 65536"
    using assms True by (intro mod_pos_pos_trivial) simp_all
  finally show ?thesis
    using assms True by simp
next
  case False
  then have "v mod 65536 = v"
    using assms by (intro mod_pos_pos_trivial) simp_all
  then show ?thesis
    using assms by simp
qed

lemma sample_bytes_Cons:
  "sample_bytes (x # xs) = le_bytes 2 (ToInt16 (scaled x)) @ sample_bytes xs"
  by (simp add: sample_bytes_def)

lemma slice_sample:
  "i < length xs \<Longrightarrow>
   view_slice (sample_bytes xs) (2 * i) 2 = Inr (le_bytes 2 (ToInt16 (scaled (xs ! i))))"
proof (induction xs arbitrary: i)
  case Nil
  then show ?case by simp
next
  case (Cons x xs)
  show ?case
  proof (cases i)
    case 0
    then show ?thesis
      by (simp add: sample_bytes_Cons slice_here)
  next
    case (Suc j)
    then have "j < length xs" using Cons.prems by simp
    then have "view_slice (sample_bytes xs) (2 * j) 2
               = Inr (le_bytes 2 (ToInt16 (scaled (xs ! j))))"
      by (rule Cons.IH)
    then show ?thesis
      using Suc by (simp add: sample_bytes_Cons slice_skip)
  qed
qed

lemma getInt16_sample:
  assumes "i < length xs"
  shows "getInt16 (wav_header L sr @ sample_bytes xs) (44 + 2 * i) True
         = Inr (ToInt16 (scaled (xs ! i)))"
proof -
  have "view_slice (wav_header L sr @ sample_bytes xs) (44 + 2 * i) 2
        = Inr (le_bytes 2 (ToInt16 (scaled (xs ! i))))"
    using assms by (simp add: slice_skip slice_sample)
  then have "getInt16 (wav_header L sr @ sample_bytes xs) (44 + 2 * i) True
        = Inr (let u = ToInt16 (scaled (xs ! i)) mod 65536
               in if u \<ge> 32768 then u - 65536 else u)"
    by (simp add: getInt16_def load_le from_le_le_bytes Let_def)
  then show ?thesis
    using ToInt16_range [of "scaled (xs ! i)"] int16_roundtrip [of "ToInt16 (scaled (xs ! i))"]
    by (simp add: Let_def)
qed

lemma wav_sample_encodes:
  "i < length buf \<Longrightarrow>
   wav_sample (createWavBlob buf sr) i = Inr (ToInt16 (scaled (buf ! i)))"
  by (simp add: wav_sample_def createWavBlob_bytes getInt16_sample)


section \<open>Quantisation of a sample\<close>

lemma scaled_Fin:
  "scaled (Fin s) =
     (let c = max (- 1) (min 1 s) in if c < 0 then Fin (c * 32768) else Fin (c * 32767))"
  by (auto simp add: scaled_def Let_def)

lemma scaled_nonfinite [simp]:
  "scaled NaN = NaN" "scaled PInf = Fin 32767" "scaled NInf = Fin (- 32768)"
  by (simp_all add: scaled_def Let_def)

lemma ToInt16_small:
  "- 32768 \<le> js_truncate q \<Longrightarrow> js_truncate q \<le> 32767 \<Longrightarrow> ToInt16 (Fin q) = js_truncate q"
  using int16_roundtrip [of "js_truncate q"]
  by (simp add: ToInt16_def ToUint_def Let_def split: if_splits)

lemma truncate_neg_bounds:
  assumes "- 1 \<le> c" "c < 0"
  shows "- 32768 \<le> js_truncate (c * 32768) \<and> js_truncate (c * 32768) \<le> 32767"
proof -
  have "- 32768 \<le> c * 32768" "c * 32768 < 0" using assms by auto
  then have "- 32768 \<le> \<lceil>c * 32768\<rceil>" "\<lceil>c * 32768\<rceil> \<le> 0"
    by (simp_all add: le_ceiling_iff ceiling_le_iff)
  then show ?thesis using \<open>c * 32768 < 0\<close> by (simp add: js_truncate_def)
qed

lemma truncate_pos_bounds:
  assumes "0 \<le> c" "c \<le> 1"
  shows "- 32768 \<le> js_truncate (c * 32767) \<and> js_truncate (c * 32767) \<le> 32767"
proof -
  have "0 \<le> c * 32767" "c * 32767 \<le> 32767" using assms by auto
  then have "0 \<le> \<lfloor>c * 32767\<rfloor>" "\<lfloor>c * 32767\<rfloor> \<le> 32767"
    by (simp_all add: le_floor_iff floor_le_iff)
  then show ?thesis using \<open>0 \<le> c * 32767\<close> by (simp add: js_truncate_def)
qed

lemma ToInt16_scaled_Fin: "ToInt16 (scaled (Fin s)) = truncating_quantize s"
proof -
  define c where "c = max (- 1) (min 1 s)"
  have range: "- 1 \<le> c" "c \<le> 1" by (simp_all add: c_def)
  show ?thesis
  proof (cases "c < 0")
    case True
    then show ?thesis
      using truncate_neg_bounds [of c] range
      by (simp add: scaled_Fin truncating_quantize_def Let_def c_def [symmetric] ToInt16_small)
  next
    case False
    then show ?thesis
      using truncate_pos_bounds [of c] range
      by (simp add: scaled_Fin truncating_quantize_def Let_def c_def [symmetric] ToInt16_small)
  qed
qed

lemma ToInt16_nonfinite [simp]:
  "ToInt16 NaN = 0" "ToInt16 (Fin 32767) = 32767" "ToInt16 (Fin (- 32768)) = - 32768"
  by (simp_all add: ToInt16_def ToUint_def js_truncate_def)

lemma truncating_quantize_quarter: "truncating_quantize (1 / 4) = 8191"
proof -
  have "\<lfloor>32767 / 4 :: rat\<rfloor> = 8191" by (rule floor_unique) simp_all
  then show ?thesis by (simp add: truncating_quantize_def js_truncate_def)
qed

lemma spec_quantize_quarter: "spec_quantize (1 / 4) = 8192"
proof -
  have "\<lfloor>32769 / 4 :: rat\<rfloor> = 8192" by (rule floor_unique) simp_all
  then show ?thesis by (simp add: spec_quantize_def round_def)
qed

text \<open>
  C2, amended. For every finite sample \<open>s\<close> at position \<open>i\<close> of the buffer, the
  16-bit value the encoder emits there is the clamp of \<open>s\<close> to \<open>[-1, 1]\<close> times 32768
  when the clamped value is negative and times 32767 otherwise, rounded towards zero: the
  code has no rounding step, the conversion inside \<open>setInt16\<close> truncates. Both source
  files agree.
\<close>

theorem createWavBlob_sample_truncates:
  "i < length buf \<Longrightarrow> buf ! i = Fin s \<Longrightarrow>
   wav_sample (createWavBlob buf sr) i = Inr (truncating_quantize s)
   \<and> wav_sample (createWavBlob_folded buf sr) i = Inr (truncating_quantize s)"
  by (simp add: createWavBlob_folded_eq wav_sample_encodes ToInt16_scaled_Fin)

theorem createWavBlob_sample_truncates_witness:
  "wav_sample (createWavBlob [Fin (1 / 4)] (Fin 44100)) 0 = Inr 8191
   \<and> wav_sample (createWavBlob_folded [Fin (1 / 4)] (Fin 44100)) 0 = Inr 8191"
  using createWavBlob_sample_truncates [of 0 "[Fin (1 / 4)]" "1 / 4" "Fin 44100"]
  by (simp add: truncating_quantize_quarter)

text \<open>
  C2 as stated fails at the sample \<open>1/4\<close>: the product \<open>8191.75\<close> is stored as 8191,
  and rounding to nearest gives 8192.
\<close>

theorem createWavBlob_sample_not_rounded:
  "wav_sample (createWavBlob [Fin (1 / 4)] (Fin 44100)) 0 = Inr 8191
   \<and> spec_quantize (1 / 4) = 8192"
  by (simp add: wav_sample_encodes ToInt16_scaled_Fin spec_quantize_quarter
      truncating_quantize_quarter)

text \<open>
  C3. At any position of any buffer and for any sample rate, in both source files, the
  sample \<open>1.0\<close> is encoded as 32767, \<open>-1.0\<close> as -32768 and \<open>0.0\<close> as 0; every
  sample above 1, such as \<open>1.5\<close>, is encoded as \<open>1.0\<close> is, and every sample below -1
  as \<open>-1.0\<close> is.
\<close>

theorem createWavBlob_boundary_samples:
  "wav_sample (createWavBlob (pre @ Fin 1 # post) sr) (length pre) = Inr 32767
   \<and> wav_sample (createWavBlob (pre @ Fin (- 1) # post) sr) (length pre) = Inr (- 32768)
   \<and> wav_sample (createWavBlob (pre @ Fin 0 # post) sr) (length pre) = Inr 0
   \<and> wav_sample (createWavBlob (pre @ Fin (3 / 2) # post) sr) (length pre)
     = wav_sample (createWavBlob (pre @ Fin 1 # post) sr) (length pre)
   \<and> (1 < q \<longrightarrow>
        wav_sample (createWavBlob (pre @ Fin q # post) sr) (length pre) = Inr 32767
        \<and> wav_sample (createWavBlob_folded (pre @ Fin q # post) sr) (length pre)
          = wav_sample (createWavBlob_folded (pre @ Fin 1 # post) sr) (length pre))
   \<and> (q < - 1 \<longrightarrow>
        wav_sample (createWavBlob (pre @ Fin q # post) sr) (length pre) = Inr (- 32768)
        \<and> wav_sample (createWavBlob_folded (pre @ Fin q # post) sr) (length pre)
          = wav_sample (createWavBlob_folded (pre @ Fin (- 1) # post) sr) (length pre))
   \<and> wav_sample (createWavBlob_folded (pre @ Fin 1 # post) sr) (length pre) = Inr 32767
   \<and> wav_sample (createWavBlob_folded (pre @ Fin (- 1) # post) sr) (length pre)
     = Inr (- 32768)
   \<and> wav_sample (createWavBlob_folded (pre @ Fin 0 # post) sr) (length pre) = Inr 0"
proof -
  have at: "wav_sample (createWavBlob (pre @ Fin s # post) sr) (length pre)
            = Inr (truncating_quantize s)" for s
    by (simp add: wav_sample_encodes ToInt16_scaled_Fin)
  have above: "truncating_quantize s = 32767" if "1 \<le> s" for s
    using that by (simp add: truncating_quantize_def js_truncate_def)
  have below: "truncating_quantize s = - 32768" if "s \<le> - 1" for s
    using that by (simp add: truncating_quantize_def js_truncate_def)
  have zero: "truncating_quantize 0 = 0"
    by (simp add: truncating_quantize_def js_truncate_def)
  show ?thesis
    unfolding createWavBlob_folded_eq at
    using above [of 1] above [of "3 / 2"] above [of q] below [of "- 1"] below [of q] zero
    by simp
qed

theorem createWavBlob_boundary_samples_witness:
  "wav_sample (createWavBlob [Fin 0, Fin 3, Fin (- 2)] (Fin 48000)) 1 = Inr 32767
   \<and> wav_sample (createWavBlob [Fin 0, Fin 3, Fin (- 2)] (Fin 48000)) 2 = Inr (- 32768)
   \<and> wav_sample (createWavBlob_folded [Fin 0, Fin 3, Fin (- 2)] (Fin 48000)) 1 = Inr 32767"
  using createWavBlob_boundary_samples [of "[Fin 0]" "[Fin (- 2)]" "Fin 48000" 3]
    createWavBlob_boundary_samples [of "[Fin 0, Fin 3]" "[]" "Fin 48000" "- 2"]
  by (simp add: numeral_2_eq_2)




section \<open>The header\<close>







text \<open>
  C4. Encoding the empty buffer returns, for every sample rate, a buffer of exactly 44
  bytes with ChunkSize 36 and Subchunk2Size 0; it does not throw.
\<close>

theorem createWavBlob_empty:
  "wav_length (createWavBlob [] sr) = Inr 44
   \<and> wav_u32 (createWavBlob [] sr) 4 = Inr 36
   \<and> wav_u32 (createWavBlob [] sr) 40 = Inr 0
   \<and> createWavBlob_folded [] sr = createWavBlob [] sr"
  unfolding createWavBlob_folded_eq createWavBlob_bytes wav_length_def wav_u32_def
    ebind.simps header_u32_4 header_u32_40
  by (simp add: ToUint_def js_truncate_def)

section \<open>Merging the chunks\<close>

lemma reduce_length:
  "foldl (\<lambda>acc chunk. acc + length chunk) a chunks = a + length (concat chunks)"
  by (induction chunks arbitrary: a) simp_all

lemma merge_loop_concat:
  "length pre = offset \<Longrightarrow> length (concat chunks) \<le> length rest \<Longrightarrow>
   merge_loop (pre @ rest) offset chunks
   = Inr (pre @ concat chunks @ drop (length (concat chunks)) rest)"
proof (induction chunks arbitrary: pre offset rest)
  case Nil
  then show ?case by simp
next
  case (Cons c cs)
  have step: "typed_set (pre @ rest) c offset = Inr ((pre @ c) @ drop (length c) rest)"
    using Cons.prems by (simp add: typed_set_def)
  have "merge_loop ((pre @ c) @ drop (length c) rest) (offset + length c) cs
        = Inr ((pre @ c) @ concat cs @ drop (length (concat cs)) (drop (length c) rest))"
    using Cons.prems by (intro Cons.IH) auto
  then show ?case
    by (simp add: step add.commute)
qed

lemma mergeBuffers_Inr: "mergeBuffers chunks = Inr (concat chunks)"
proof -
  have "merge_loop ([] @ replicate (length (concat chunks)) (Fin 0)) 0 chunks
        = Inr ([] @ concat chunks
               @ drop (length (concat chunks)) (replicate (length (concat chunks)) (Fin 0)))"
    by (rule merge_loop_concat) simp_all
  then show ?thesis
    by (simp add: mergeBuffers_def reduce_length)
qed

text \<open>
  C5. For every list of chunks, \<open>mergeBuffers\<close> returns their concatenation in order,
  and its length is the sum of the lengths of the chunks; the empty list gives the empty
  buffer.
\<close>

theorem mergeBuffers_concat:
  "mergeBuffers chunks = Inr (concat chunks)
   \<and> length (concat chunks) = sum_list (map length chunks)
   \<and> mergeBuffers [] = Inr []"
  by (simp add: mergeBuffers_Inr length_concat)

section \<open>The stop handler\<close>

lemma encode_merged:
  "ebind (mergeBuffers chunks) (\<lambda>b. createWavBlob b sr)
   = Inr (wav_header (length (concat chunks)) sr @ sample_bytes (concat chunks))"
  by (simp add: mergeBuffers_Inr createWavBlob_bytes)

lemma stop_absent:
  "currentRecording s = None \<Longrightarrow> stopRecordBtn_click s = ([], s, None)"
  "currentRecording s = None \<Longrightarrow> stopRecordBtn_click_part0 s = ([], s, None)"
  by (simp_all add: stopRecordBtn_click_def stopRecordBtn_click_part0_def)

lemma stop_clears_session:
  "thrown_of (stopRecordBtn_click s) = None \<Longrightarrow>
   currentRecording (page_of (stopRecordBtn_click s)) = None"
  by (auto simp add: stopRecordBtn_click_def thrown_of_def page_of_def encode_merged Let_def
      split: option.splits)

lemma stop_part0_clears_session:
  "thrown_of (stopRecordBtn_click_part0 s) = None \<Longrightarrow>
   currentRecording (page_of (stopRecordBtn_click_part0 s)) = None"
  by (auto simp add: stopRecordBtn_click_part0_def thrown_of_def page_of_def encode_merged
      createWavBlob_folded_eq Let_def split: option.splits)

lemma stop_completes:
  "recorder s \<noteq> None \<Longrightarrow> mediaStreamSource s \<noteq> None \<Longrightarrow>
   thrown_of (stopRecordBtn_click s) = None \<and> thrown_of (stopRecordBtn_click_part0 s) = None"
  by (auto simp add: stopRecordBtn_click_def stopRecordBtn_click_part0_def thrown_of_def
      encode_merged createWavBlob_folded_eq Let_def split: option.splits)

text \<open>
  C8. With no current recording the stop handler, in both source files, performs no
  effect, leaves the page as it is (the recorded blob with it) and throws nothing; and a
  stop that follows a completed stop is such a run.
\<close>

theorem stop_without_session_noop:
  "(currentRecording s = None \<longrightarrow>
      stopRecordBtn_click s = ([], s, None) \<and> stopRecordBtn_click_part0 s = ([], s, None))
   \<and> (thrown_of (stopRecordBtn_click s) = None \<longrightarrow>
      stopRecordBtn_click (page_of (stopRecordBtn_click s))
        = ([], page_of (stopRecordBtn_click s), None))
   \<and> (thrown_of (stopRecordBtn_click_part0 s) = None \<longrightarrow>
      stopRecordBtn_click_part0 (page_of (stopRecordBtn_click_part0 s))
        = ([], page_of (stopRecordBtn_click_part0 s), None))"
  by (simp add: stop_absent stop_clears_session stop_part0_clears_session)

theorem stop_without_session_noop_witness:
  "currentRecording blank_page = None
   \<and> stopRecordBtn_click blank_page = ([], blank_page, None)
   \<and> thrown_of (stopRecordBtn_click recording_page) = None
   \<and> recordedBlob (page_of (stopRecordBtn_click recording_page)) \<noteq> None
   \<and> stopRecordBtn_click (page_of (stopRecordBtn_click recording_page))
       = ([], page_of (stopRecordBtn_click recording_page), None)
   \<and> thrown_of (stopRecordBtn_click_part0 recording_page) = None
   \<and> stopRecordBtn_click_part0 (page_of (stopRecordBtn_click_part0 recording_page))
       = ([], page_of (stopRecordBtn_click_part0 recording_page), None)"
proof -
  have absent: "currentRecording blank_page = None"
    by (simp add: blank_page_def)
  have done1: "thrown_of (stopRecordBtn_click recording_page) = None"
    and done2: "thrown_of (stopRecordBtn_click_part0 recording_page) = None"
    using stop_completes [of recording_page]
    by (simp_all add: recording_page_def)
  have saved: "recordedBlob (page_of (stopRecordBtn_click recording_page)) \<noteq> None"
    by (simp add: stopRecordBtn_click_def recording_page_def blank_page_def page_of_def
        encode_merged)
  show ?thesis
    using stop_without_session_noop [of blank_page] stop_without_session_noop [of recording_page] absent done1 done2 saved
    by simp
qed

section \<open>The embed and extract handlers\<close>

lemma embed_missing_run:
  "embed_input_missing s \<Longrightarrow>
   \<exists>m. embedBtn_click net s = ([Alert m], s\<lparr>loading_hidden := True\<rparr>, None)"
  by (auto simp add: embed_input_missing_def embedBtn_click_def finally_hide_def
      split: if_splits)

lemma embed_part0_missing_run:
  "embed_input_missing s \<Longrightarrow>
   \<exists>m. embedBtn_click_part0 net s = ([Alert m], s\<lparr>loading_hidden := True\<rparr>, None)"
  by (auto simp add: embed_input_missing_def embedBtn_click_part0_def finally_hide_def
      split: if_splits)

lemma extract_missing_run:
  "extractImageFileInput_files s = [] \<Longrightarrow>
   \<exists>m. extractBtn_click net s = ([Alert m], s\<lparr>loading_hidden := True\<rparr>, None)"
  "extractImageFileInput_files s = [] \<Longrightarrow>
   \<exists>m. extractBtn_click_part0 net s = ([Alert m], s\<lparr>loading_hidden := True\<rparr>, None)"
  by (simp_all add: extractBtn_click_def extractBtn_click_part0_def finally_hide_def)

lemma rejected_alert: "rejected ([Alert m], s\<lparr>loading_hidden := True\<rparr>, None) s"
  by (simp add: rejected_def effects_of_def page_of_def thrown_of_def)

lemma rejected_no_fetch: "rejected r s \<Longrightarrow> fetches (effects_of r) = []"
  by (auto simp add: rejected_def split: list.splits effect.splits)

text \<open>
  C9. When the embed handler lacks the audio of the active tab or the image, or the
  extract handler lacks its image, the run, in both source files, is one alert: no
  request is sent, whatever the service would answer.
\<close>

theorem missing_input_rejected:
  "(embed_input_missing s \<longrightarrow>
      rejected (embedBtn_click net s) s \<and> rejected (embedBtn_click_part0 net s) s
      \<and> fetches (effects_of (embedBtn_click net s)) = []
      \<and> fetches (effects_of (embedBtn_click_part0 net s)) = [])
   \<and> (extractImageFileInput_files s = [] \<longrightarrow>
      rejected (extractBtn_click net s) s \<and> rejected (extractBtn_click_part0 net s) s
      \<and> fetches (effects_of (extractBtn_click net s)) = []
      \<and> fetches (effects_of (extractBtn_click_part0 net s)) = [])"
proof -
  have embed: "rejected (embedBtn_click net s) s \<and> rejected (embedBtn_click_part0 net s) s"
    if "embed_input_missing s"
    using that embed_missing_run [of s net] embed_part0_missing_run [of s net]
    by (auto simp add: rejected_alert)
  have extr:
    "rejected (extractBtn_click net s) s \<and> rejected (extractBtn_click_part0 net s) s"
    if "extractImageFileInput_files s = []"
    using that extract_missing_run [of s net]
    by (auto simp add: rejected_alert)
  show ?thesis
    using embed extr by (auto dest: rejected_no_fetch)
qed

theorem missing_input_rejected_witness:
  "embed_input_missing blank_page
   \<and> extractImageFileInput_files blank_page = []
   \<and> fetches (effects_of (embedBtn_click plain_text_failure blank_page)) = []
   \<and> fetches (effects_of (embedBtn_click_part0 plain_text_failure blank_page)) = []
   \<and> fetches (effects_of (extractBtn_click plain_text_failure blank_page)) = []
   \<and> fetches (effects_of (extractBtn_click_part0 plain_text_failure blank_page)) = []"
proof -
  have missing: "embed_input_missing blank_page"
    and none: "extractImageFileInput_files blank_page = []"
    by (simp_all add: embed_input_missing_def blank_page_def)
  show ?thesis
    using missing_input_rejected [of blank_page plain_text_failure] missing none
    by simp
qed

lemma part0_failure_carries_text:
  assumes "\<not> embed_input_missing s" and "net ''/api/embed'' = (\<lambda>body. Response r)"
    and "\<not> resp_ok r"
  shows "last (effects_of (embedBtn_click_part0 net s)) = AlertError ''Error: '' (Error (resp_text r))"
  using assms
  by (auto simp add: embed_input_missing_def embedBtn_click_part0_def finally_hide_def
      effects_of_def Let_def split: if_splits)

lemma part0_extract_failure_carries_text:
  assumes "extractImageFileInput_files s \<noteq> []" and "net ''/api/extract'' = (\<lambda>body. Response r)"
    and "\<not> resp_ok r"
  shows "last (effects_of (extractBtn_click_part0 net s)) = AlertError ''Error: '' (Error (resp_text r))"
  using assms
  by (auto simp add: extractBtn_click_part0_def finally_hide_def
      effects_of_def Let_def split: if_splits)

text \<open>
  C7. On a failure answered in plain text, the handlers of script.js parse the body as
  JSON and report the parser's \<open>SyntaxError\<close>, not the body; on a failure answered in
  JSON they report its \<open>detail\<close> field. The handlers of the second source file report
  the body as it is.
\<close>

theorem embedBtn_click_json_failure_path:
  "last (effects_of (embedBtn_click plain_text_failure ready_page))
     = AlertError ''Error: '' SyntaxError
   \<and> last (effects_of (extractBtn_click plain_text_failure ready_page))
     = AlertError ''Error: '' SyntaxError
   \<and> last (effects_of (embedBtn_click json_detail_failure ready_page))
     = AlertError ''Error: '' (Error ''bad'')
   \<and> last (effects_of (embedBtn_click_part0 plain_text_failure ready_page))
     = AlertError ''Error: '' (Error ''Internal Server Error'')
   \<and> last (effects_of (extractBtn_click_part0 plain_text_failure ready_page))
     = AlertError ''Error: '' (Error ''Internal Server Error'')"
  by (simp add: embedBtn_click_def extractBtn_click_def embedBtn_click_part0_def
      extractBtn_click_part0_def plain_text_failure_def json_detail_failure_def
      ready_page_def blank_page_def finally_hide_def effects_of_def)

end
